theory Spec2Isabelle
  imports Main "HOL-Library.Multiset"
begin

section \<open>Data model\<close>

text \<open>
  The service of \<^verbatim>\<open>src/api/services/nft.ts\<close> joins records of a blockchain indexer with
  documents of a local document store. Every value the service touches is modelled as the
  TypeScript has it: objects as records, optional fields as \<open>option\<close>, thrown errors as
  the left summand of \<open>error + 'a\<close>.
\<close>

type_synonym objectId = string

datatype error = Error string

record category =
  category_id :: objectId
  code :: string

text \<open>A field of a stored document: missing, \<^verbatim>\<open>null\<close>, or holding a value.\<close>

datatype 'a field = Missing | Null | Present 'a

text \<open>
  \<^verbatim>\<open>INFT\<close>: a record of the indexer. \<open>nft_id\<close> is the field \<^verbatim>\<open>id\<close>; \<open>nftCategories\<close> is
  the field \<^verbatim>\<open>categories\<close> the enrichment attaches; \<open>viewsCount\<close> is set by \<^verbatim>\<open>getNFT\<close> only.
\<close>

record nft =
  nft_id :: string
  serieId :: string
  owner :: string
  creator :: string
  listed :: int
  nftCategories :: "category option list"
  viewsCount :: "int option"

text \<open>
  \<^verbatim>\<open>IMongoNft\<close>: the local enrichment document. A category reference is kept resolved (the
  store holds the category document where the driver holds its id and \<^verbatim>\<open>populate\<close> resolves
  it); a \<^verbatim>\<open>null\<close> entry of the list is \<open>None\<close>.
\<close>

record mongoNft =
  chainId :: string
  categories :: "category option list field"

record INftDto =
  dtoChainId :: string
  dtoCategories :: "string list"

record nftView =
  viewedSerie :: string
  viewedId :: string
  viewer :: "string option"
  viewerIp :: "string option"
  date :: int

record user =
  user_id :: objectId
  walletId :: string

record follow =
  follower :: objectId
  followed :: objectId

record stats =
  countOwned :: int
  countOwnedListed :: int
  countOwnedUnlisted :: int
  countCreated :: int
  countFollowers :: int
  countFollowed :: int

subsection \<open>The indexer\<close>

text \<open>
  A query document, one constructor per method of \<^verbatim>\<open>QueriesBuilder\<close> that the service
  calls, with the arguments in the order the service passes them. The optional
  \<^verbatim>\<open>limit\<close>, \<^verbatim>\<open>page\<close> and \<^verbatim>\<open>listed\<close> are \<open>string option\<close>.
\<close>

datatype query =
    allNFTs "string option" "string option" "string option"
  | NFTfromId string
  | NFTsFromOwnerId string "string option" "string option" "string option"
  | NFTsFromCreatorId string "string option" "string option" "string option"
  | countOwnerOwned string
  | countOwnerOwnedListed string
  | countOwnerOwnedUnlisted string
  | countCreated string
  | NFTsFromIds "string list" "string option" "string option" "string option"
  | NFTsNotInIds "string list" "string option" "string option" "string option"
  | NFTsForSerie string "string option" "string option"

text \<open>
  A response envelope is an object that may hold \<^verbatim>\<open>nftEntities\<close>, \<^verbatim>\<open>distinctSerieNfts\<close>,
  both or neither; reading \<^verbatim>\<open>.nodes\<close> or \<^verbatim>\<open>.totalCount\<close> of a member that is not there
  throws a \<^verbatim>\<open>TypeError\<close>.
\<close>

record connection =
  totalCount :: int
  nodes :: "nft list"

record response =
  nftEntities :: "connection option"
  distinctSerieNfts :: "connection option"

subsection \<open>The collaborators the service imports\<close>

text \<open>
  \<open>request\<close> is \<^verbatim>\<open>request(indexerUrl, query)\<close>, \<open>populateNFT\<close> the helper of
  \<^verbatim>\<open>helpers/nftHelpers\<close>, \<open>getCategoryByCode\<close> the method of \<^verbatim>\<open>CategoryService\<close>
  (\<open>Inr None\<close> when it resolves to no category); each may reject. \<open>now\<close> is
  \<^verbatim>\<open>+new Date()\<close>, in milliseconds. None of them is defined in the service's file, so the
  service is modelled for every behaviour they can have.
\<close>

record env =
  request :: "query \<Rightarrow> error + response"
  populateNFT :: "nft \<Rightarrow> error + nft"
  getCategoryByCode :: "string \<Rightarrow> error + category option"
  now :: int
  TIME_BETWEEN_SAME_USER_VIEWS :: int

subsection \<open>The local store\<close>

text \<open>
  The collections behind the mongoose models, and \<open>fails\<close>: which kinds of store call
  are rejected by the store.
\<close>

datatype storeCall =
  UserFindOne | FollowFind | NftFind | NftFindOne | NftSave | NftViewFind | NftViewSave

record store =
  users :: "user list"
  follows :: "follow list"
  nfts :: "mongoNft list"
  nftViews :: "nftView list"
  fails :: "storeCall \<Rightarrow> bool"

definition storeCallResult :: "store \<Rightarrow> storeCall \<Rightarrow> 'a \<Rightarrow> error + 'a" where
  "storeCallResult st c v = (if fails st c then Inl (Error ''MongoError'') else Inr v)"

text \<open>\<^verbatim>\<open>UserModel.findOne({walletId})\<close>: the first user with that wallet id, or \<^verbatim>\<open>null\<close>.\<close>

definition UserModel_findOne :: "store \<Rightarrow> string \<Rightarrow> error + user option" where
  "UserModel_findOne st w = storeCallResult st UserFindOne (find (\<lambda>u. walletId u = w) (users st))"

datatype followQuery = followedIs objectId | followerIs objectId

fun matchesFollow :: "followQuery \<Rightarrow> follow \<Rightarrow> bool" where
  "matchesFollow (followedIs i) f = (followed f = i)"
| "matchesFollow (followerIs i) f = (follower f = i)"

definition FollowModel_find :: "store \<Rightarrow> followQuery \<Rightarrow> error + follow list" where
  "FollowModel_find st q = storeCallResult st FollowFind (filter (matchesFollow q) (follows st))"

datatype nftViewQuery = viewedSerieIs string | viewedIdIs string

fun matchesView :: "nftViewQuery \<Rightarrow> nftView \<Rightarrow> bool" where
  "matchesView (viewedSerieIs s) v = (viewedSerie v = s)"
| "matchesView (viewedIdIs i) v = (viewedId v = i)"

definition NftViewModel_find :: "store \<Rightarrow> nftViewQuery \<Rightarrow> error + nftView list" where
  "NftViewModel_find st q = storeCallResult st NftViewFind (filter (matchesView q) (nftViews st))"

definition NftViewModel_save :: "store \<Rightarrow> nftView \<Rightarrow> error + store" where
  "NftViewModel_save st v = storeCallResult st NftViewSave (st\<lparr>nftViews := nftViews st @ [v]\<rparr>)"

text \<open>
  The two queries the service sends to \<^verbatim>\<open>NftModel.find\<close>:
  \<^verbatim>\<open>{categories: {$exists: true, $nin: [[], null]}}\<close> and \<^verbatim>\<open>{categories: {$in: ids}}\<close>,
  where a slot of \<open>ids\<close> is \<open>None\<close> for \<^verbatim>\<open>undefined\<close>.
\<close>

datatype nftQuery = categoriesExistsNinEmptyNull | categoriesIn "objectId option list"

text \<open>
  Modelled from the spec: the query language of the document store, whose driver and
  schemas are not among the sources. The first query selects the documents whose category
  list is there and is neither the empty list nor \<^verbatim>\<open>null\<close> ("a non-empty category set");
  the second selects the documents tagged with one of the given category ids ("tagged with
  any of those categories"), where a \<^verbatim>\<open>null\<close> entry of a document is no tag and an
  \<^verbatim>\<open>undefined\<close> slot of the query selects nothing.
\<close>

fun taggedWith :: "objectId option list \<Rightarrow> category option \<Rightarrow> bool" where
  "taggedWith ids None = False"
| "taggedWith ids (Some c) = (Some (category_id c) \<in> set ids)"

fun matchesNft :: "nftQuery \<Rightarrow> mongoNft \<Rightarrow> bool" where
  "matchesNft categoriesExistsNinEmptyNull d =
     (case categories d of Missing \<Rightarrow> False | Null \<Rightarrow> False | Present cs \<Rightarrow> cs \<noteq> [])"
| "matchesNft (categoriesIn ids) d =
     (case categories d of Missing \<Rightarrow> False | Null \<Rightarrow> False | Present cs \<Rightarrow> list_ex (taggedWith ids) cs)"

definition NftModel_find :: "store \<Rightarrow> nftQuery \<Rightarrow> error + mongoNft list" where
  "NftModel_find st q = storeCallResult st NftFind (filter (matchesNft q) (nfts st))"

text \<open>\<^verbatim>\<open>NftModel.findOne({chainId}).populate("categories")\<close>.\<close>

definition NftModel_findOne :: "store \<Rightarrow> string \<Rightarrow> error + mongoNft option" where
  "NftModel_findOne st i = storeCallResult st NftFindOne (find (\<lambda>d. chainId d = i) (nfts st))"

text \<open>\<^verbatim>\<open>new NftModel(data).save()\<close>: the saved document and the store that holds it.\<close>

definition NftModel_save :: "store \<Rightarrow> mongoNft \<Rightarrow> error + mongoNft \<times> store" where
  "NftModel_save st d = storeCallResult st NftSave (d, st\<lparr>nfts := nfts st @ [d]\<rparr>)"

section \<open>Promises and exceptions\<close>

text \<open>
  \<open>await p k\<close> continues with the value of a fulfilled promise and propagates a
  rejection; \<open>Promise_all\<close> is fulfilled with all values or rejected when one promise
  is; \<open>try_catch msg\<close> is \<^verbatim>\<open>try { ... } catch (err) { throw new Error(msg) }\<close>.
\<close>

definition await :: "error + 'a \<Rightarrow> ('a \<Rightarrow> error + 'b) \<Rightarrow> error + 'b" where
  "await p k = (case p of Inl e \<Rightarrow> Inl e | Inr v \<Rightarrow> k v)"

fun Promise_all :: "(error + 'a) list \<Rightarrow> error + 'a list" where
  "Promise_all [] = Inr []"
| "Promise_all (p # ps) =
     (case p of
        Inl e \<Rightarrow> Inl e
      | Inr v \<Rightarrow> (case Promise_all ps of Inl e \<Rightarrow> Inl e | Inr vs \<Rightarrow> Inr (v # vs)))"

definition try_catch :: "string \<Rightarrow> error + 'a \<Rightarrow> error + 'a" where
  "try_catch msg body = (case body of Inl err \<Rightarrow> Inl (Error msg) | Inr v \<Rightarrow> Inr v)"

text \<open>Reading a member of an object that may not be there, before reading into it.\<close>

definition member :: "'a option \<Rightarrow> error + 'a" where
  "member m = (case m of None \<Rightarrow> Inl (Error ''TypeError'') | Some v \<Rightarrow> Inr v)"

section \<open>The NFT service\<close>

text \<open>
  The three lines every list operation ends with: read the nodes of the envelope, enrich
  each of them, and put the enriched nodes back.
\<close>

definition populateDistinctSerieNfts :: "env \<Rightarrow> response \<Rightarrow> error + response" where
  "populateDistinctSerieNfts e result =
     await (member (distinctSerieNfts result)) (\<lambda>conn.
     await (Promise_all (map (populateNFT e) (nodes conn))) (\<lambda>NFTs.
       Inr (result\<lparr>distinctSerieNfts := Some (conn\<lparr>nodes := NFTs\<rparr>)\<rparr>)))"



subsection \<open>\<^verbatim>\<open>getNFT\<close> and the view counter\<close>

text \<open>
  \<^verbatim>\<open>Math.max.apply(null, xs)\<close> is \<^verbatim>\<open>-Infinity\<close> on the empty list, and
  \<^verbatim>\<open>date - (-Infinity)\<close> is \<^verbatim>\<open>Infinity\<close>, greater than every number.
\<close>

datatype number = MinusInfinity | Num int

fun Math_max :: "int list \<Rightarrow> number" where
  "Math_max [] = MinusInfinity"
| "Math_max (x # xs) = (case Math_max xs of MinusInfinity \<Rightarrow> Num x | Num m \<Rightarrow> Num (max x m))"

text \<open>\<open>minus_gt d m t\<close> is \<^verbatim>\<open>d - m > t\<close>.\<close>

fun minus_gt :: "int \<Rightarrow> number \<Rightarrow> int \<Rightarrow> bool" where
  "minus_gt d MinusInfinity t = True"
| "minus_gt d (Num m) t = (d - m > t)"

text \<open>A string is truthy when it is neither \<^verbatim>\<open>null\<close> nor empty.\<close>

fun truthy :: "string option \<Rightarrow> bool" where
  "truthy None = False"
| "truthy (Some s) = (s \<noteq> [])"

definition viewsQuery :: "nft \<Rightarrow> string \<Rightarrow> nftViewQuery" where
  "viewsQuery NFT i = (if serieId NFT \<noteq> ''0'' then viewedSerieIs (serieId NFT) else viewedIdIs i)"

definition shouldRecordView :: "env \<Rightarrow> string option \<Rightarrow> nftView list \<Rightarrow> bool" where
  "shouldRecordView e ip views =
     (truthy ip \<and>
      (length views = 0 \<or>
       minus_gt (now e) (Math_max (map date (filter (\<lambda>x. viewerIp x = ip) views)))
         (TIME_BETWEEN_SAME_USER_VIEWS e)))"

definition newView :: "env \<Rightarrow> nft \<Rightarrow> string \<Rightarrow> string option \<Rightarrow> string option \<Rightarrow> nftView" where
  "newView e NFT i viewerWalletId ip =
     \<lparr>viewedSerie = serieId NFT, viewedId = i, viewer = viewerWalletId, viewerIp = ip,
      date = now e\<rparr>"

text \<open>
  The first lines of the \<^verbatim>\<open>try\<close> block: the first node of the indexer's answer,
  enriched; a bare \<^verbatim>\<open>Error\<close> is thrown when there is no node.
\<close>

definition fetchNFT :: "env \<Rightarrow> string \<Rightarrow> error + nft" where
  "fetchNFT e i =
     await (request e (NFTfromId i)) (\<lambda>result.
     await (member (nftEntities result)) (\<lambda>conn.
       case nodes conn of
         [] \<Rightarrow> Inl (Error [])
       | NFT0 # rest \<Rightarrow> populateNFT e NFT0))"

text \<open>The whole \<^verbatim>\<open>try\<close> block: the record with its view count, and the store.\<close>

definition getNFT_try ::
  "env \<Rightarrow> store \<Rightarrow> string \<Rightarrow> bool \<Rightarrow> string option \<Rightarrow> string option \<Rightarrow> error + nft \<times> store" where
  "getNFT_try e st i incViews viewerWalletId ip =
     await (fetchNFT e i) (\<lambda>NFT.
       if incViews then
         await (NftViewModel_find st (viewsQuery NFT i)) (\<lambda>views.
           if shouldRecordView e ip views then
             await (NftViewModel_save st (newView e NFT i viewerWalletId ip)) (\<lambda>st'.
               Inr (NFT\<lparr>viewsCount := Some (int (length views) + 1)\<rparr>, st'))
           else Inr (NFT\<lparr>viewsCount := Some (int (length views))\<rparr>, st))
       else Inr (NFT\<lparr>viewsCount := Some 0\<rparr>, st))"

text \<open>
  \<^verbatim>\<open>getNFT\<close>: what the caller gets, and the store afterwards. Nothing follows the
  \<^verbatim>\<open>save\<close> that could throw, so a call that throws leaves the store as it was.
\<close>

definition getNFT ::
  "env \<Rightarrow> store \<Rightarrow> string \<Rightarrow> bool \<Rightarrow> string option \<Rightarrow> string option \<Rightarrow> (error + nft) \<times> store" where
  "getNFT e st i incViews viewerWalletId ip =
     (case getNFT_try e st i incViews viewerWalletId ip of
        Inl err \<Rightarrow> (Inl (Error ''Couldn't get NFT''), st)
      | Inr (NFT, st') \<Rightarrow> (Inr NFT, st'))"

subsection \<open>Lists by owner, creator and ids\<close>




definition getNFTsFromIdsDistinct ::
  "env \<Rightarrow> string list \<Rightarrow> string option \<Rightarrow> string option \<Rightarrow> string option \<Rightarrow> error + response" where
  "getNFTsFromIdsDistinct e ids page limit lst =
     try_catch ''Couldn't get NFTs from ids''
       (await (request e (NFTsFromIds ids limit page lst)) (populateDistinctSerieNfts e))"

definition getNFTsNotInIds ::
  "env \<Rightarrow> string list \<Rightarrow> string option \<Rightarrow> string option \<Rightarrow> string option \<Rightarrow> error + response" where
  "getNFTsNotInIds e ids page limit lst =
     try_catch ''Couldn't get NFTs not in ids''
       (await (request e (NFTsNotInIds ids limit page lst)) (populateDistinctSerieNfts e))"


subsection \<open>\<^verbatim>\<open>getStatNFTsUser\<close>\<close>

text \<open>
  The six promises of the \<^verbatim>\<open>Promise.all\<close> are awaited in the order of the array; which
  rejection wins does not matter, since the \<^verbatim>\<open>catch\<close> drops it.
\<close>

definition getStatNFTsUser :: "env \<Rightarrow> store \<Rightarrow> string \<Rightarrow> error + stats" where
  "getStatNFTsUser e st userWalletId =
     try_catch ''Couldn't get users stat''
       (await (UserModel_findOne st userWalletId) (\<lambda>found.
          case found of
            None \<Rightarrow> Inl (Error ''User not found in db'')
          | Some u \<Rightarrow>
              await (request e (countOwnerOwned userWalletId)) (\<lambda>owned.
              await (request e (countOwnerOwnedListed userWalletId)) (\<lambda>ownedListed.
              await (request e (countOwnerOwnedUnlisted userWalletId)) (\<lambda>ownedUnlisted.
              await (request e (countCreated userWalletId)) (\<lambda>created.
              await (FollowModel_find st (followedIs (user_id u))) (\<lambda>followers.
              await (FollowModel_find st (followerIs (user_id u))) (\<lambda>followedBy.
              await (member (nftEntities owned)) (\<lambda>c1.
              await (member (nftEntities ownedListed)) (\<lambda>c2.
              await (member (nftEntities ownedUnlisted)) (\<lambda>c3.
              await (member (nftEntities created)) (\<lambda>c4.
                Inr \<lparr>countOwned = totalCount c1, countOwnedListed = totalCount c2,
                     countOwnedUnlisted = totalCount c3, countCreated = totalCount c4,
                     countFollowers = int (length followers),
                     countFollowed = int (length followedBy)\<rparr>))))))))))))"

subsection \<open>\<^verbatim>\<open>getNFTsFromCategories\<close>\<close>

text \<open>
  The callback of \<^verbatim>\<open>codes.map\<close>: the id of the category a code resolves to, and
  \<^verbatim>\<open>undefined\<close> for a code that resolves to none.
\<close>

definition categoryIdByCode :: "env \<Rightarrow> string \<Rightarrow> error + objectId option" where
  "categoryIdByCode e x =
     await (getCategoryByCode e x) (\<lambda>cat.
       case cat of None \<Rightarrow> Inr None | Some c \<Rightarrow> Inr (Some (category_id c)))"

definition getNFTsFromCategories ::
  "env \<Rightarrow> store \<Rightarrow> string list option \<Rightarrow> string option \<Rightarrow> string option \<Rightarrow> string option \<Rightarrow>
   error + response" where
  "getNFTsFromCategories e st codes page limit lst =
     try_catch ''Couldn't get NFTs by categories''
       (case codes of
          None \<Rightarrow>
            await (NftModel_find st categoriesExistsNinEmptyNull) (\<lambda>mongoNfts.
            await (getNFTsNotInIds e (map chainId mongoNfts) page limit lst)
              (populateDistinctSerieNfts e))
        | Some cs \<Rightarrow>
            await (Promise_all (map (categoryIdByCode e) cs)) (\<lambda>cats.
            await (NftModel_find st (categoriesIn cats)) (\<lambda>mongoNfts.
            await (getNFTsFromIdsDistinct e (map chainId mongoNfts) page limit lst)
              (populateDistinctSerieNfts e))))"

subsection \<open>\<^verbatim>\<open>createNFT\<close> and \<^verbatim>\<open>findMongoNftFromId\<close>\<close>

definition createNFT :: "env \<Rightarrow> store \<Rightarrow> INftDto \<Rightarrow> (error + mongoNft) \<times> store" where
  "createNFT e st nftDTO =
     (case await (Promise_all (map (getCategoryByCode e) (dtoCategories nftDTO))) (\<lambda>cats.
             NftModel_save st \<lparr>chainId = dtoChainId nftDTO, categories = Present cats\<rparr>) of
        Inl err \<Rightarrow> (Inl (Error ''NFT can't be created''), st)
      | Inr (saved, st') \<Rightarrow> (Inr saved, st'))"

definition findMongoNftFromId :: "store \<Rightarrow> string \<Rightarrow> error + mongoNft option" where
  "findMongoNftFromId st nftId =
     try_catch ''Couldn't get mongo NFT''
       (await (NftModel_findOne st nftId) (\<lambda>found.
          case found of None \<Rightarrow> Inr None | Some d \<Rightarrow> Inr (Some d)))"

section \<open>Notions of the specification\<close>

text \<open>
  The prior view events of a record's scope, in the specification's words: the events of
  the record's serie when the serie id is not \<^verbatim>\<open>"0"\<close>, the events of the requested id
  when it is.
\<close>

definition priorViews :: "store \<Rightarrow> nft \<Rightarrow> string \<Rightarrow> nftView list" where
  "priorViews st NFT i =
     filter (\<lambda>v. if serieId NFT \<noteq> ''0'' then viewedSerie v = serieId NFT else viewedId v = i)
       (nftViews st)"

definition viewsFrom :: "string option \<Rightarrow> nftView list \<Rightarrow> nftView list" where
  "viewsFrom ip views = filter (\<lambda>v. viewerIp v = ip) views"

text \<open>
  "Either no prior view event exists for the record's scope, or the most recent prior
  event from that same viewer address is older than the cooldown": the second alternative
  speaks of an event of the viewer, so there is one.
\<close>

definition statedCondition :: "env \<Rightarrow> string option \<Rightarrow> nftView list \<Rightarrow> bool" where
  "statedCondition e ip prior =
     (prior = [] \<or>
      (viewsFrom ip prior \<noteq> [] \<and>
       now e - Max (set (map date (viewsFrom ip prior))) > TIME_BETWEEN_SAME_USER_VIEWS e))"

text \<open>
  The cooldown of a viewer is over when the scope holds no prior event of that viewer, or
  the most recent one is older than the cooldown.
\<close>

definition cooldownOver :: "env \<Rightarrow> string option \<Rightarrow> nftView list \<Rightarrow> bool" where
  "cooldownOver e ip prior =
     (viewsFrom ip prior = [] \<or>
      now e - Max (set (map date (viewsFrom ip prior))) > TIME_BETWEEN_SAME_USER_VIEWS e)"

text \<open>
  The ids of the categories that the codes resolve to: the lookup results without the
  unresolvable codes.
\<close>

definition resolvedIds :: "category option list \<Rightarrow> objectId list" where
  "resolvedIds cats = concat (map (\<lambda>c. case c of None \<Rightarrow> [] | Some cat \<Rightarrow> [category_id cat]) cats)"

text \<open>A local record is tagged with one of the given categories.\<close>

definition hasCategoryIn :: "objectId list \<Rightarrow> mongoNft \<Rightarrow> bool" where
  "hasCategoryIn ids d =
     (case categories d of
        Missing \<Rightarrow> False
      | Null \<Rightarrow> False
      | Present cs \<Rightarrow> list_ex (\<lambda>c. case c of None \<Rightarrow> False | Some cat \<Rightarrow> category_id cat \<in> set ids) cs)"

text \<open>A local record has a non-empty category assignment.\<close>

definition hasCategories :: "mongoNft \<Rightarrow> bool" where
  "hasCategories d =
     (case categories d of Missing \<Rightarrow> False | Null \<Rightarrow> False | Present cs \<Rightarrow> cs \<noteq> [])"

text \<open>
  Modelled from the spec: the enrichment merge \<^verbatim>\<open>populateNFT\<close> of \<^verbatim>\<open>helpers/nftHelpers\<close>,
  which is not among the sources. "For each raw indexer record: look up its local
  enrichment record by chain id; if found, attach its categories and any other
  locally-held fields; if not found, attach an empty category set." The lookup is the
  service's \<^verbatim>\<open>findMongoNftFromId\<close>; the model's local record holds no field but the
  categories.
\<close>

definition populateNFT_spec :: "store \<Rightarrow> nft \<Rightarrow> error + nft" where
  "populateNFT_spec st NFT =
     await (findMongoNftFromId st (nft_id NFT)) (\<lambda>found.
       case found of
         None \<Rightarrow> Inr (NFT\<lparr>nftCategories := []\<rparr>)
       | Some d \<Rightarrow>
           Inr (NFT\<lparr>nftCategories :=
                  (case categories d of Missing \<Rightarrow> [] | Null \<Rightarrow> [] | Present cs \<Rightarrow> cs)\<rparr>))"

section \<open>Example data\<close>

text \<open>
  A chain of three records, an indexer that answers over it, and a store with three
  users, three follow edges, two enrichment documents and two view events.
\<close>

definition exNFT :: nft where
  "exNFT = \<lparr>nft_id = ''42'', serieId = ''0'', owner = ''alice'', creator = ''bob'', listed = 1,
            nftCategories = [], viewsCount = None\<rparr>"

definition exSerieNFT :: nft where
  "exSerieNFT = \<lparr>nft_id = ''7'', serieId = ''s1'', owner = ''alice'', creator = ''alice'',
                 listed = 0, nftCategories = [], viewsCount = None\<rparr>"

definition exThirdNFT :: nft where
  "exThirdNFT = \<lparr>nft_id = ''9'', serieId = ''0'', owner = ''bob'', creator = ''alice'',
                 listed = 1, nftCategories = [], viewsCount = None\<rparr>"

definition exChain :: "nft list" where
  "exChain = [exNFT, exSerieNFT, exThirdNFT]"

definition exEntities :: "nft list \<Rightarrow> response" where
  "exEntities ns =
     \<lparr>nftEntities = Some \<lparr>totalCount = int (length ns), nodes = ns\<rparr>, distinctSerieNfts = None\<rparr>"

definition exDistinct :: "nft list \<Rightarrow> response" where
  "exDistinct ns =
     \<lparr>nftEntities = None, distinctSerieNfts = Some \<lparr>totalCount = int (length ns), nodes = ns\<rparr>\<rparr>"

definition exRequest :: "query \<Rightarrow> error + response" where
  "exRequest q =
     (case q of
        NFTfromId i \<Rightarrow> Inr (exEntities (filter (\<lambda>n. nft_id n = i) exChain))
      | allNFTs limit page lst \<Rightarrow> Inr (exDistinct exChain)
      | countOwnerOwned w \<Rightarrow> Inr (exEntities (filter (\<lambda>n. owner n = w) exChain))
      | countOwnerOwnedListed w \<Rightarrow>
          Inr (exEntities (filter (\<lambda>n. owner n = w \<and> listed n = 1) exChain))
      | countOwnerOwnedUnlisted w \<Rightarrow>
          Inr (exEntities (filter (\<lambda>n. owner n = w \<and> listed n = 0) exChain))
      | countCreated w \<Rightarrow> Inr (exEntities (filter (\<lambda>n. creator n = w) exChain))
      | NFTsFromIds ids limit page lst \<Rightarrow>
          Inr (exDistinct (filter (\<lambda>n. nft_id n \<in> set ids) exChain))
      | NFTsNotInIds ids limit page lst \<Rightarrow>
          Inr (exDistinct (filter (\<lambda>n. nft_id n \<notin> set ids) exChain))
      | _ \<Rightarrow> Inl (Error ''ECONNREFUSED''))"

definition exArt :: category where
  "exArt = \<lparr>category_id = ''c1'', code = ''art''\<rparr>"

definition exEnv :: env where
  "exEnv = \<lparr>request = exRequest, populateNFT = Inr,
            getCategoryByCode = (\<lambda>c. if c = ''art'' then Inr (Some exArt) else Inr None),
            now = 100000, TIME_BETWEEN_SAME_USER_VIEWS = 1000\<rparr>"

definition exView :: "string \<Rightarrow> string \<Rightarrow> string \<Rightarrow> int \<Rightarrow> nftView" where
  "exView s i ip d = \<lparr>viewedSerie = s, viewedId = i, viewer = None, viewerIp = Some ip, date = d\<rparr>"

definition exStore :: store where
  "exStore =
     \<lparr>users = [\<lparr>user_id = ''u1'', walletId = ''alice''\<rparr>, \<lparr>user_id = ''u2'', walletId = ''bob''\<rparr>,
               \<lparr>user_id = ''u3'', walletId = ''carol''\<rparr>],
      follows = [\<lparr>follower = ''u2'', followed = ''u1''\<rparr>, \<lparr>follower = ''u1'', followed = ''u2''\<rparr>,
                 \<lparr>follower = ''u2'', followed = ''u2''\<rparr>],
      nfts = [\<lparr>chainId = ''42'', categories = Present [Some exArt]\<rparr>,
              \<lparr>chainId = ''7'', categories = Present []\<rparr>],
      nftViews = [exView ''0'' ''42'' ''5.6.7.8'' 99990, exView ''0'' ''43'' ''1.2.3.4'' 99995],
      fails = (\<lambda>c. False)\<rparr>"



definition exSpecEnv :: env where
  "exSpecEnv = exEnv\<lparr>populateNFT := populateNFT_spec exStore\<rparr>"

section \<open>Promises, exceptions and the view arithmetic\<close>

lemma await_simps [simp]: "await (Inl err) k = Inl err" "await (Inr v) k = k v"
  by (simp_all add: await_def)

lemma try_catch_simps [simp]:
  "try_catch msg (Inl err) = Inl (Error msg)" "try_catch msg (Inr v) = Inr v"
  by (simp_all add: try_catch_def)

lemma member_simps [simp]: "member None = Inl (Error ''TypeError'')" "member (Some v) = Inr v"
  by (simp_all add: member_def)

lemma Math_max_Max: "xs \<noteq> [] \<Longrightarrow> Math_max xs = Num (Max (set xs))"
proof (induction xs)
  case Nil
  then show ?case by simp
next
  case (Cons x xs)
  show ?case
  proof (cases "xs = []")
    case True
    then show ?thesis by simp
  next
    case False
    with Cons.IH have "Math_max xs = Num (Max (set xs))" by simp
    with False show ?thesis by (simp add: max.commute)
  qed
qed

lemma minus_gt_Math_max:
  "minus_gt d (Math_max xs) t = (xs = [] \<or> d - Max (set xs) > t)"
  by (cases "xs = []") (simp_all add: Math_max_Max)

lemma find_views:
  "filter (matchesView (viewsQuery NFT i)) (nftViews st) = priorViews st NFT i"
proof -
  have "matchesView (viewsQuery NFT i) =
          (\<lambda>v. if serieId NFT \<noteq> ''0'' then viewedSerie v = serieId NFT else viewedId v = i)"
    by (auto simp add: fun_eq_iff viewsQuery_def)
  then show ?thesis by (simp add: priorViews_def)
qed

lemma shouldRecordView_iff:
  "shouldRecordView e ip views = (truthy ip \<and> cooldownOver e ip views)"
  by (auto simp add: shouldRecordView_def cooldownOver_def viewsFrom_def minus_gt_Math_max)

lemma fetch_ex: "fetchNFT exEnv ''42'' = Inr exNFT"
  by (simp add: fetchNFT_def exEnv_def exRequest_def exEntities_def exChain_def exNFT_def
      exSerieNFT_def exThirdNFT_def)

lemma exStore_prior:
  "priorViews exStore exNFT ''42'' = [exView ''0'' ''42'' ''5.6.7.8'' 99990]"
  by (simp add: priorViews_def exStore_def exNFT_def exView_def)

lemma getNFT_new_viewer:
  "getNFT exEnv exStore ''42'' True None (Some ''1.2.3.4'') =
     (Inr (exNFT\<lparr>viewsCount := Some 2\<rparr>),
      exStore\<lparr>nftViews := nftViews exStore @ [exView ''0'' ''42'' ''1.2.3.4'' 100000]\<rparr>)"
proof -
  have v: "NftViewModel_find exStore (viewsQuery exNFT ''42'') =
             Inr [exView ''0'' ''42'' ''5.6.7.8'' 99990]"
    by (simp add: NftViewModel_find_def storeCallResult_def viewsQuery_def exStore_def exNFT_def
        exView_def)
  have r: "shouldRecordView exEnv (Some ''1.2.3.4'') [exView ''0'' ''42'' ''5.6.7.8'' 99990]"
    by (simp add: shouldRecordView_def exView_def)
  have n: "newView exEnv exNFT ''42'' None (Some ''1.2.3.4'') =
             exView ''0'' ''42'' ''1.2.3.4'' 100000"
    by (simp add: newView_def exView_def exEnv_def exNFT_def)
  have s: "NftViewModel_save exStore (exView ''0'' ''42'' ''1.2.3.4'' 100000) =
             Inr (exStore\<lparr>nftViews := nftViews exStore @ [exView ''0'' ''42'' ''1.2.3.4'' 100000]\<rparr>)"
    by (simp add: NftViewModel_save_def storeCallResult_def exStore_def)
  show ?thesis
    by (simp add: getNFT_def getNFT_try_def fetch_ex v r n s)
qed

section \<open>The view counter of \<^verbatim>\<open>getNFT\<close>\<close>

text \<open>
  Claim C1, as the code has it. Let \<^verbatim>\<open>getNFT\<close> be called with \<^verbatim>\<open>incViews\<close> set, let the
  record be found and enriched, and let the store answer the lookup of the prior view
  events of the record's scope. When the viewer address is present (a non-empty string), a
  new view event is recorded if and only if the scope holds no prior event from that same
  address, or the most recent such event is older than
  \<^verbatim>\<open>TIME_BETWEEN_SAME_USER_VIEWS\<close>; the returned \<^verbatim>\<open>viewsCount\<close> is the number of prior events
  plus one when the event is recorded (the store accepting it), and the number of prior
  events otherwise. When the viewer address is absent (\<^verbatim>\<open>null\<close> or empty), no event is
  recorded and the number of prior events is returned.
\<close>

theorem getNFT_records_view:
  assumes "fetchNFT e i = Inr NFT" and "\<not> fails st NftViewFind"
  shows "(truthy ip \<and> cooldownOver e ip (priorViews st NFT i) \<and> \<not> fails st NftViewSave \<longrightarrow>
            getNFT e st i True w ip =
              (Inr (NFT\<lparr>viewsCount := Some (int (length (priorViews st NFT i)) + 1)\<rparr>),
               st\<lparr>nftViews := nftViews st @ [newView e NFT i w ip]\<rparr>)) \<and>
         (truthy ip \<and> \<not> cooldownOver e ip (priorViews st NFT i) \<longrightarrow>
            getNFT e st i True w ip =
              (Inr (NFT\<lparr>viewsCount := Some (int (length (priorViews st NFT i)))\<rparr>), st)) \<and>
         (\<not> truthy ip \<longrightarrow>
            getNFT e st i True w ip =
              (Inr (NFT\<lparr>viewsCount := Some (int (length (priorViews st NFT i)))\<rparr>), st)) \<and>
         (truthy ip \<and> \<not> fails st NftViewSave \<longrightarrow>
            (nftViews (snd (getNFT e st i True w ip)) \<noteq> nftViews st) =
              cooldownOver e ip (priorViews st NFT i))"
  using assms
  by (simp add: getNFT_def getNFT_try_def NftViewModel_find_def NftViewModel_save_def
      storeCallResult_def find_views shouldRecordView_iff)

text \<open>
  The record \<^verbatim>\<open>"42"\<close> has one prior view, from \<^verbatim>\<open>5.6.7.8\<close>, ten milliseconds old. A
  first view from \<^verbatim>\<open>1.2.3.4\<close> is recorded and counted; a second view from \<^verbatim>\<open>5.6.7.8\<close> and
  a view without an address are not.
\<close>

theorem getNFT_records_view_witness:
  "getNFT exEnv exStore ''42'' True None (Some ''1.2.3.4'') =
     (Inr (exNFT\<lparr>viewsCount := Some 2\<rparr>),
      exStore\<lparr>nftViews := nftViews exStore @ [exView ''0'' ''42'' ''1.2.3.4'' 100000]\<rparr>) \<and>
   getNFT exEnv exStore ''42'' True None (Some ''5.6.7.8'') =
     (Inr (exNFT\<lparr>viewsCount := Some 1\<rparr>), exStore) \<and>
   getNFT exEnv exStore ''42'' True None None = (Inr (exNFT\<lparr>viewsCount := Some 1\<rparr>), exStore)"
proof -
  have nf: "\<not> fails exStore NftViewFind" "\<not> fails exStore NftViewSave"
    by (simp_all add: exStore_def)
  have c: "cooldownOver exEnv (Some ''1.2.3.4'') (priorViews exStore exNFT ''42'')"
    by (simp add: exStore_prior cooldownOver_def viewsFrom_def exView_def)
  have b: "\<not> cooldownOver exEnv (Some ''5.6.7.8'') (priorViews exStore exNFT ''42'')"
    by (simp add: exStore_prior cooldownOver_def viewsFrom_def exView_def exEnv_def)
  have n: "newView exEnv exNFT ''42'' None (Some ''1.2.3.4'') =
             exView ''0'' ''42'' ''1.2.3.4'' 100000"
    by (simp add: newView_def exView_def exEnv_def exNFT_def)
  from getNFT_records_view [OF fetch_ex nf(1), of "Some ''1.2.3.4''" None] nf(2) c n
  have 1: "getNFT exEnv exStore ''42'' True None (Some ''1.2.3.4'') =
     (Inr (exNFT\<lparr>viewsCount := Some 2\<rparr>),
      exStore\<lparr>nftViews := nftViews exStore @ [exView ''0'' ''42'' ''1.2.3.4'' 100000]\<rparr>)"
    by (simp add: exStore_prior)
  from getNFT_records_view [OF fetch_ex nf(1), of "Some ''5.6.7.8''" None] b
  have 2: "getNFT exEnv exStore ''42'' True None (Some ''5.6.7.8'') =
     (Inr (exNFT\<lparr>viewsCount := Some 1\<rparr>), exStore)"
    by (simp add: exStore_prior)
  from getNFT_records_view [OF fetch_ex nf(1), of None None]
  have 3: "getNFT exEnv exStore ''42'' True None None = (Inr (exNFT\<lparr>viewsCount := Some 1\<rparr>), exStore)"
    by (simp add: exStore_prior)
  from 1 2 3 show ?thesis by blast
qed

text \<open>
  The claim as stated fails there: a prior event exists for the scope and none of them is
  from the viewer, so neither alternative of the stated condition holds, and yet the code
  records the view (\<^verbatim>\<open>Math.max\<close> of no dates is \<^verbatim>\<open>-Infinity\<close>).
\<close>

theorem getNFT_stated_condition_counterexample:
  "\<not> ((nftViews (snd (getNFT exEnv exStore ''42'' True None (Some ''1.2.3.4''))) \<noteq>
        nftViews exStore) =
      statedCondition exEnv (Some ''1.2.3.4'') (priorViews exStore exNFT ''42''))"
  by (simp add: getNFT_new_viewer exStore_prior statedCondition_def viewsFrom_def exView_def)

text \<open>
  Claim C10. With \<^verbatim>\<open>incViews\<close> false the returned \<^verbatim>\<open>viewsCount\<close> is 0 whatever view events
  are stored, the store is left as it was, and the outcome is the same whatever view
  events the store holds and whichever calls it rejects: no view event is read or written.
\<close>

theorem getNFT_without_incViews:
  "(\<forall>NFT. fetchNFT e i = Inr NFT \<longrightarrow>
      getNFT e st i False w ip = (Inr (NFT\<lparr>viewsCount := Some 0\<rparr>), st)) \<and>
   (\<forall>err. fetchNFT e i = Inl err \<longrightarrow>
      getNFT e st i False w ip = (Inl (Error ''Couldn't get NFT''), st)) \<and>
   getNFT e st i False w ip = (fst (getNFT e (st\<lparr>nftViews := views, fails := f\<rparr>) i False w ip), st)"
  by (cases "fetchNFT e i") (simp_all add: getNFT_def getNFT_try_def)

theorem getNFT_without_incViews_witness:
  "getNFT exEnv exStore ''42'' False None (Some ''1.2.3.4'') =
     (Inr (exNFT\<lparr>viewsCount := Some 0\<rparr>), exStore) \<and>
   length (priorViews exStore exNFT ''42'') = 1"
  using getNFT_without_incViews [where e = exEnv and i = "''42''" and st = exStore and w = None
      and ip = "Some ''1.2.3.4''" and views = "[]" and f = "\<lambda>c. True"]
  by (simp add: fetch_ex exStore_prior)

section \<open>The scope of the view events\<close>




section \<open>The local enrichment record\<close>

text \<open>
  Claim C8. \<^verbatim>\<open>findMongoNftFromId\<close> returns the first local record with the given chain id
  when there is one, and \<^verbatim>\<open>null\<close>, not an error, when there is none; it throws only when
  the store rejects the lookup, and then the error is \<^verbatim>\<open>"Couldn't get mongo NFT"\<close>.
\<close>

theorem findMongoNftFromId_result:
  "(\<not> fails st NftFindOne \<longrightarrow>
      findMongoNftFromId st nftId = Inr (find (\<lambda>d. chainId d = nftId) (nfts st))) \<and>
   (\<not> fails st NftFindOne \<and> (\<forall>d \<in> set (nfts st). chainId d \<noteq> nftId) \<longrightarrow>
      findMongoNftFromId st nftId = Inr None) \<and>
   (\<not> fails st NftFindOne \<and> (\<exists>d \<in> set (nfts st). chainId d = nftId) \<longrightarrow>
      (\<exists>d \<in> set (nfts st). chainId d = nftId \<and> findMongoNftFromId st nftId = Inr (Some d))) \<and>
   (fails st NftFindOne \<longrightarrow>
      findMongoNftFromId st nftId = Inl (Error ''Couldn't get mongo NFT'')) \<and>
   (\<forall>err. findMongoNftFromId st nftId = Inl err \<longrightarrow>
      fails st NftFindOne \<and> err = Error ''Couldn't get mongo NFT'')"
proof -
  have a: "\<not> fails st NftFindOne \<Longrightarrow>
      findMongoNftFromId st nftId = Inr (find (\<lambda>d. chainId d = nftId) (nfts st))"
    by (simp add: findMongoNftFromId_def NftModel_findOne_def storeCallResult_def
        split: option.split)
  have b: "fails st NftFindOne \<Longrightarrow>
      findMongoNftFromId st nftId = Inl (Error ''Couldn't get mongo NFT'')"
    by (simp add: findMongoNftFromId_def NftModel_findOne_def storeCallResult_def)
  have c: "(\<forall>d \<in> set (nfts st). chainId d \<noteq> nftId) \<Longrightarrow>
      find (\<lambda>d. chainId d = nftId) (nfts st) = None"
    by (simp add: find_None_iff)
  have d: "(\<exists>d \<in> set (nfts st). chainId d = nftId) \<Longrightarrow>
      (\<exists>d \<in> set (nfts st). chainId d = nftId \<and> find (\<lambda>d. chainId d = nftId) (nfts st) = Some d)"
    by (cases "find (\<lambda>d. chainId d = nftId) (nfts st)")
      (auto simp add: find_None_iff find_Some_iff)
  show ?thesis
    using a b c d by (cases "fails st NftFindOne") auto
qed

theorem findMongoNftFromId_result_witness:
  "findMongoNftFromId exStore ''42'' = Inr (Some \<lparr>chainId = ''42'', categories = Present [Some exArt]\<rparr>) \<and>
   findMongoNftFromId exStore ''1000'' = Inr None \<and>
   findMongoNftFromId (exStore\<lparr>fails := \<lambda>c. True\<rparr>) ''42'' = Inl (Error ''Couldn't get mongo NFT'')"
proof -
  have nf: "\<not> fails exStore NftFindOne" by (simp add: exStore_def)
  have a: "find (\<lambda>d. chainId d = ''42'') (nfts exStore) =
             Some \<lparr>chainId = ''42'', categories = Present [Some exArt]\<rparr>"
    by (simp add: exStore_def)
  have b: "\<forall>d \<in> set (nfts exStore). chainId d \<noteq> ''1000''"
    by (simp add: exStore_def)
  have f: "fails (exStore\<lparr>fails := \<lambda>c. True\<rparr>) NftFindOne" by simp
  have 1: "findMongoNftFromId exStore ''42'' =
             Inr (Some \<lparr>chainId = ''42'', categories = Present [Some exArt]\<rparr>)"
    using findMongoNftFromId_result [of exStore "''42''"] nf a by metis
  have 2: "findMongoNftFromId exStore ''1000'' = Inr None"
    using findMongoNftFromId_result [of exStore "''1000''"] nf b by blast
  have 3: "findMongoNftFromId (exStore\<lparr>fails := \<lambda>c. True\<rparr>) ''42'' =
             Inl (Error ''Couldn't get mongo NFT'')"
    using findMongoNftFromId_result [of "exStore\<lparr>fails := \<lambda>c. True\<rparr>" "''42''"] f by blast
  from 1 2 3 show ?thesis by blast
qed

lemma Promise_all_Inr: "Promise_all (map Inr xs) = Inr xs"
  by (induction xs) simp_all

text \<open>
  Claim C7. When every category lookup of \<^verbatim>\<open>createNFT\<close> is fulfilled (\<open>cats\<close> are the
  results, \<open>None\<close> for a code that resolves to no category) and the store accepts the
  document, the call is not rejected: the document with the given chain id and one entry
  per code, \<^verbatim>\<open>null\<close> exactly at the unresolvable codes, is appended to the store and
  returned.
\<close>

theorem createNFT_persists:
  "map (getCategoryByCode e) (dtoCategories nftDTO) = map Inr cats \<and> \<not> fails st NftSave \<longrightarrow>
     createNFT e st nftDTO =
       (Inr \<lparr>chainId = dtoChainId nftDTO, categories = Present cats\<rparr>,
        st\<lparr>nfts := nfts st @ [\<lparr>chainId = dtoChainId nftDTO, categories = Present cats\<rparr>]\<rparr>) \<and>
     length cats = length (dtoCategories nftDTO) \<and>
     (\<forall>k < length cats. (cats ! k = None) = (getCategoryByCode e (dtoCategories nftDTO ! k) = Inr None))"
proof (intro impI, elim conjE)
  assume m: "map (getCategoryByCode e) (dtoCategories nftDTO) = map Inr cats"
    and s: "\<not> fails st NftSave"
  from m have len: "length cats = length (dtoCategories nftDTO)"
    by (metis length_map)
  have nth: "getCategoryByCode e (dtoCategories nftDTO ! k) = Inr (cats ! k)" if "k < length cats" for k
  proof -
    from that len have "map (getCategoryByCode e) (dtoCategories nftDTO) ! k =
        getCategoryByCode e (dtoCategories nftDTO ! k)" by simp
    moreover from that have "map Inr cats ! k = (Inr (cats ! k) :: error + category option)" by simp
    ultimately show ?thesis using m by simp
  qed
  have "createNFT e st nftDTO =
       (Inr \<lparr>chainId = dtoChainId nftDTO, categories = Present cats\<rparr>,
        st\<lparr>nfts := nfts st @ [\<lparr>chainId = dtoChainId nftDTO, categories = Present cats\<rparr>]\<rparr>)"
    using s by (simp add: createNFT_def m Promise_all_Inr NftModel_save_def storeCallResult_def)
  with len nth show "createNFT e st nftDTO =
       (Inr \<lparr>chainId = dtoChainId nftDTO, categories = Present cats\<rparr>,
        st\<lparr>nfts := nfts st @ [\<lparr>chainId = dtoChainId nftDTO, categories = Present cats\<rparr>]\<rparr>) \<and>
     length cats = length (dtoCategories nftDTO) \<and>
     (\<forall>k < length cats. (cats ! k = None) = (getCategoryByCode e (dtoCategories nftDTO ! k) = Inr None))"
    by auto
qed

text \<open>
  The code \<^verbatim>\<open>"cars"\<close> resolves to no category and becomes a \<^verbatim>\<open>null\<close> entry.
\<close>

theorem createNFT_persists_witness:
  "createNFT exEnv exStore \<lparr>dtoChainId = ''9'', dtoCategories = [''art'', ''cars'']\<rparr> =
     (Inr \<lparr>chainId = ''9'', categories = Present [Some exArt, None]\<rparr>,
      exStore\<lparr>nfts := nfts exStore @ [\<lparr>chainId = ''9'', categories = Present [Some exArt, None]\<rparr>]\<rparr>)"
proof -
  have m: "map (getCategoryByCode exEnv) (dtoCategories \<lparr>dtoChainId = ''9'', dtoCategories = [''art'', ''cars'']\<rparr>) =
             map Inr [Some exArt, None]"
    by (simp add: exEnv_def)
  have nf: "\<not> fails exStore NftSave" by (simp add: exStore_def)
  from createNFT_persists [of exEnv "\<lparr>dtoChainId = ''9'', dtoCategories = [''art'', ''cars'']\<rparr>"
      "[Some exArt, None]" exStore] m nf
  show ?thesis by simp
qed

section \<open>User statistics\<close>

text \<open>
  Claim C4. When the user record of the wallet exists, the store answers and the indexer
  reports a total for each of the four count queries, \<^verbatim>\<open>getStatNFTsUser\<close> returns these four
  totals, the number of follow edges whose followed endpoint is the user's id as
  \<^verbatim>\<open>countFollowers\<close> and the number of follow edges whose follower endpoint is the user's id
  as \<^verbatim>\<open>countFollowed\<close>; a user with no follow edge in either direction gets 0 and 0. When
  no user record exists for the wallet, the call fails.
\<close>

theorem getStatNFTsUser_counts:
  "(find (\<lambda>u. walletId u = w) (users st) = Some u \<and>
    \<not> fails st UserFindOne \<and> \<not> fails st FollowFind \<and>
    request e (countOwnerOwned w) = Inr r1 \<and> nftEntities r1 = Some c1 \<and>
    request e (countOwnerOwnedListed w) = Inr r2 \<and> nftEntities r2 = Some c2 \<and>
    request e (countOwnerOwnedUnlisted w) = Inr r3 \<and> nftEntities r3 = Some c3 \<and>
    request e (countCreated w) = Inr r4 \<and> nftEntities r4 = Some c4 \<longrightarrow>
      getStatNFTsUser e st w =
        Inr \<lparr>countOwned = totalCount c1, countOwnedListed = totalCount c2,
             countOwnedUnlisted = totalCount c3, countCreated = totalCount c4,
             countFollowers = int (length (filter (\<lambda>f. followed f = user_id u) (follows st))),
             countFollowed = int (length (filter (\<lambda>f. follower f = user_id u) (follows st)))\<rparr> \<and>
      ((\<forall>f \<in> set (follows st). followed f \<noteq> user_id u \<and> follower f \<noteq> user_id u) \<longrightarrow>
         getStatNFTsUser e st w =
           Inr \<lparr>countOwned = totalCount c1, countOwnedListed = totalCount c2,
                countOwnedUnlisted = totalCount c3, countCreated = totalCount c4,
                countFollowers = 0, countFollowed = 0\<rparr>)) \<and>
   (find (\<lambda>u. walletId u = w) (users st) = None \<longrightarrow>
      getStatNFTsUser e st w = Inl (Error ''Couldn't get users stat''))"
proof -
  have fq: "matchesFollow (followedIs x) = (\<lambda>f. followed f = x)"
    "matchesFollow (followerIs x) = (\<lambda>f. follower f = x)" for x
    by (simp_all add: fun_eq_iff)
  have z: "(\<forall>f \<in> set fs. followed f \<noteq> x \<and> follower f \<noteq> x) \<Longrightarrow>
     filter (\<lambda>f. followed f = x) fs = [] \<and> filter (\<lambda>f. follower f = x) fs = []" for fs :: "follow list" and x
    by (simp add: filter_empty_conv)
  show ?thesis
    by (auto simp add: getStatNFTsUser_def UserModel_findOne_def FollowModel_find_def
        storeCallResult_def fq dest: z)
qed

lemma exStore_users:
  "find (\<lambda>u. walletId u = ''alice'') (users exStore) = Some \<lparr>user_id = ''u1'', walletId = ''alice''\<rparr>"
  "find (\<lambda>u. walletId u = ''carol'') (users exStore) = Some \<lparr>user_id = ''u3'', walletId = ''carol''\<rparr>"
  "find (\<lambda>u. walletId u = ''dave'') (users exStore) = None"
  by (simp_all add: exStore_def)

lemma exEnv_counts:
  "request exEnv (countOwnerOwned ''alice'') = Inr (exEntities [exNFT, exSerieNFT])"
  "request exEnv (countOwnerOwnedListed ''alice'') = Inr (exEntities [exNFT])"
  "request exEnv (countOwnerOwnedUnlisted ''alice'') = Inr (exEntities [exSerieNFT])"
  "request exEnv (countCreated ''alice'') = Inr (exEntities [exSerieNFT, exThirdNFT])"
  by (simp_all add: exEnv_def exRequest_def exChain_def exNFT_def exSerieNFT_def exThirdNFT_def)

lemma exEnv_counts_carol:
  "request exEnv (countOwnerOwned ''carol'') = Inr (exEntities [])"
  "request exEnv (countOwnerOwnedListed ''carol'') = Inr (exEntities [])"
  "request exEnv (countOwnerOwnedUnlisted ''carol'') = Inr (exEntities [])"
  "request exEnv (countCreated ''carol'') = Inr (exEntities [])"
  by (simp_all add: exEnv_def exRequest_def exChain_def exNFT_def exSerieNFT_def exThirdNFT_def)

lemma exEntities_member:
  "nftEntities (exEntities ns) = Some \<lparr>totalCount = int (length ns), nodes = ns\<rparr>"
  by (simp add: exEntities_def)

text \<open>
  Alice owns two records and has one follower and one followed user; Carol has no follow
  edge; Dave has no user record.
\<close>

theorem getStatNFTsUser_counts_witness:
  "getStatNFTsUser exEnv exStore ''alice'' =
     Inr \<lparr>countOwned = 2, countOwnedListed = 1, countOwnedUnlisted = 1, countCreated = 2,
          countFollowers = 1, countFollowed = 1\<rparr> \<and>
   getStatNFTsUser exEnv exStore ''carol'' =
     Inr \<lparr>countOwned = 0, countOwnedListed = 0, countOwnedUnlisted = 0, countCreated = 0,
          countFollowers = 0, countFollowed = 0\<rparr> \<and>
   getStatNFTsUser exEnv exStore ''dave'' = Inl (Error ''Couldn't get users stat'')"
proof -
  have nf: "\<not> fails exStore UserFindOne" "\<not> fails exStore FollowFind"
    by (simp_all add: exStore_def)
  have fa: "filter (\<lambda>f. followed f = ''u1'') (follows exStore) = [\<lparr>follower = ''u2'', followed = ''u1''\<rparr>]"
    "filter (\<lambda>f. follower f = ''u1'') (follows exStore) = [\<lparr>follower = ''u1'', followed = ''u2''\<rparr>]"
    by (simp_all add: exStore_def)
  have fc: "\<forall>f \<in> set (follows exStore). followed f \<noteq> ''u3'' \<and> follower f \<noteq> ''u3''"
    by (simp add: exStore_def)
  have alice: "getStatNFTsUser exEnv exStore ''alice'' =
     Inr \<lparr>countOwned = 2, countOwnedListed = 1, countOwnedUnlisted = 1, countCreated = 2,
          countFollowers = 1, countFollowed = 1\<rparr>"
    using getStatNFTsUser_counts [of "''alice''" exStore "\<lparr>user_id = ''u1'', walletId = ''alice''\<rparr>" exEnv
        "exEntities [exNFT, exSerieNFT]" "\<lparr>totalCount = 2, nodes = [exNFT, exSerieNFT]\<rparr>"
        "exEntities [exNFT]" "\<lparr>totalCount = 1, nodes = [exNFT]\<rparr>"
        "exEntities [exSerieNFT]" "\<lparr>totalCount = 1, nodes = [exSerieNFT]\<rparr>"
        "exEntities [exSerieNFT, exThirdNFT]" "\<lparr>totalCount = 2, nodes = [exSerieNFT, exThirdNFT]\<rparr>"]
      nf fa
    by (simp add: exStore_users exEnv_counts exEntities_member)
  have carol: "getStatNFTsUser exEnv exStore ''carol'' =
     Inr \<lparr>countOwned = 0, countOwnedListed = 0, countOwnedUnlisted = 0, countCreated = 0,
          countFollowers = 0, countFollowed = 0\<rparr>"
    using getStatNFTsUser_counts [of "''carol''" exStore "\<lparr>user_id = ''u3'', walletId = ''carol''\<rparr>" exEnv
        "exEntities []" "\<lparr>totalCount = 0, nodes = []\<rparr>"
        "exEntities []" "\<lparr>totalCount = 0, nodes = []\<rparr>"
        "exEntities []" "\<lparr>totalCount = 0, nodes = []\<rparr>"
        "exEntities []" "\<lparr>totalCount = 0, nodes = []\<rparr>"]
      nf fc
    by (simp add: exStore_users exEnv_counts_carol exEntities_member)
  have dave: "getStatNFTsUser exEnv exStore ''dave'' = Inl (Error ''Couldn't get users stat'')"
    using getStatNFTsUser_counts [of "''dave''" exStore _ exEnv]
    by (simp add: exStore_users)
  from alice carol dave show ?thesis by simp
qed

section \<open>Errors at the operation boundary\<close>


lemma Promise_all_rejects:
  "x \<in> set xs \<Longrightarrow> f x = Inl cause \<Longrightarrow> \<exists>err. Promise_all (map f xs) = Inl err"
proof (induction xs)
  case Nil
  then show ?case by simp
next
  case (Cons y ys)
  show ?case
  proof (cases "f y")
    case (Inl a)
    then show ?thesis by simp
  next
    case (Inr b)
    with Cons.prems have "x \<in> set ys" by auto
    with Cons.IH Cons.prems obtain err where "Promise_all (map f ys) = Inl err" by blast
    with Inr show ?thesis by simp
  qed
qed






section \<open>Lists by category\<close>

lemma Promise_all_Inr_iff:
  "Promise_all (map f xs) = Inr ys \<longleftrightarrow> list_all2 (\<lambda>x y. f x = Inr y) xs ys"
proof (induction xs arbitrary: ys)
  case Nil
  then show ?case by auto
next
  case (Cons x xs)
  show ?case
    by (auto simp add: list_all2_Cons1 Cons.IH [symmetric] split: sum.splits)
qed

lemma populateDistinctSerieNfts_Inr:
  assumes "populateDistinctSerieNfts e r0 = Inr r1"
  shows "\<exists>c0 ys. distinctSerieNfts r0 = Some c0 \<and>
           list_all2 (\<lambda>x y. populateNFT e x = Inr y) (nodes c0) ys \<and>
           r1 = r0\<lparr>distinctSerieNfts := Some (c0\<lparr>nodes := ys\<rparr>)\<rparr>"
proof (cases "distinctSerieNfts r0")
  case None
  with assms show ?thesis by (simp add: populateDistinctSerieNfts_def)
next
  case (Some c0)
  show ?thesis
  proof (cases "Promise_all (map (populateNFT e) (nodes c0))")
    case (Inl a)
    with Some assms show ?thesis by (simp add: populateDistinctSerieNfts_def)
  next
    case (Inr ys)
    then have "list_all2 (\<lambda>x y. populateNFT e x = Inr y) (nodes c0) ys"
      by (simp add: Promise_all_Inr_iff)
    with Some Inr assms show ?thesis by (auto simp add: populateDistinctSerieNfts_def)
  qed
qed





lemma resolvedIds_simps [simp]:
  "resolvedIds [] = []"
  "resolvedIds (None # cats) = resolvedIds cats"
  "resolvedIds (Some cat # cats) = category_id cat # resolvedIds cats"
  by (simp_all add: resolvedIds_def)

lemma matchesNft_nonempty: "matchesNft categoriesExistsNinEmptyNull = hasCategories"
  by (simp add: fun_eq_iff hasCategories_def)






lemma exStore_categorized:
  "filter hasCategories (nfts exStore) = [\<lparr>chainId = ''42'', categories = Present [Some exArt]\<rparr>]"
  "filter (hasCategoryIn [''c1'']) (nfts exStore) =
     [\<lparr>chainId = ''42'', categories = Present [Some exArt]\<rparr>]"
  by (simp_all add: exStore_def hasCategories_def hasCategoryIn_def exArt_def)

lemma exEnv_by_ids:
  "request exEnv (NFTsNotInIds [''42''] None None None) = Inr (exDistinct [exSerieNFT, exThirdNFT])"
  "request exEnv (NFTsFromIds [''42''] None None None) = Inr (exDistinct [exNFT])"
  by (simp_all add: exEnv_def exRequest_def exChain_def exNFT_def exSerieNFT_def exThirdNFT_def)






section \<open>The enrichment merge\<close>

lemma populateNFT_spec_again:
  "populateNFT_spec st x = Inr y \<Longrightarrow> populateNFT_spec st y = Inr y"
  by (cases "findMongoNftFromId st (nft_id x)")
    (auto simp add: populateNFT_spec_def split: option.splits)

lemma Promise_all_fulfilled:
  "\<forall>x \<in> set xs. \<exists>y. f x = Inr y \<Longrightarrow> Promise_all (map f xs) = Inr (map (projr \<circ> f) xs)"
  by (induction xs) auto

lemma Promise_all_order:
  assumes "mset xs = mset ys"
  shows "map_sum (\<lambda>err. ()) mset (Promise_all (map f xs)) =
         map_sum (\<lambda>err. ()) mset (Promise_all (map f ys))"
proof (cases "\<forall>x \<in> set xs. \<exists>y. f x = Inr y")
  case True
  from assms have s: "set xs = set ys" by (rule mset_eq_setD)
  with True have "\<forall>x \<in> set ys. \<exists>y. f x = Inr y" by simp
  with True have "Promise_all (map f xs) = Inr (map (projr \<circ> f) xs)"
    and "Promise_all (map f ys) = Inr (map (projr \<circ> f) ys)"
    by (simp_all add: Promise_all_fulfilled)
  moreover have "mset (map (projr \<circ> f) xs) = mset (map (projr \<circ> f) ys)"
    using assms by (metis mset_map)
  ultimately show ?thesis by simp
next
  case False
  then obtain x where x: "x \<in> set xs" and nx: "\<forall>y. f x \<noteq> Inr y" by blast
  then obtain cause where c: "f x = Inl cause" by (cases "f x") auto
  from assms have "set xs = set ys" by (rule mset_eq_setD)
  with x have y: "x \<in> set ys" by simp
  from Promise_all_rejects [of x xs f cause] x c obtain e1 where "Promise_all (map f xs) = Inl e1"
    by blast
  moreover from Promise_all_rejects [of x ys f cause] y c obtain e2 where
    "Promise_all (map f ys) = Inl e2" by blast
  ultimately show ?thesis by simp
qed

lemma populate_again:
  assumes idem: "\<forall>x y. populateNFT e x = Inr y \<longrightarrow> populateNFT e y = Inr y"
    and r1: "populateDistinctSerieNfts e r0 = Inr r1"
  shows "populateDistinctSerieNfts e r1 = Inr r1"
proof -
  from populateDistinctSerieNfts_Inr [OF r1] obtain c0 ys where
    c0: "distinctSerieNfts r0 = Some c0"
    and l: "list_all2 (\<lambda>x y. populateNFT e x = Inr y) (nodes c0) ys"
    and eq: "r1 = r0\<lparr>distinctSerieNfts := Some (c0\<lparr>nodes := ys\<rparr>)\<rparr>" by blast
  from l have "list_all2 (\<lambda>x y. populateNFT e x = Inr y) ys ys"
  proof (induction rule: list_all2_induct)
    case Nil
    show ?case by simp
  next
    case (Cons x xs y ys)
    from idem Cons.hyps(1) have "populateNFT e y = Inr y" by blast
    with Cons.IH show ?case by simp
  qed
  then have "Promise_all (map (populateNFT e) ys) = Inr ys"
    by (simp add: Promise_all_Inr_iff)
  with eq show ?thesis by (simp add: populateDistinctSerieNfts_def)
qed

lemma enrich_twice:
  assumes idem: "\<forall>x y. populateNFT e x = Inr y \<longrightarrow> populateNFT e y = Inr y"
  shows "await (try_catch m (await (request e q) (populateDistinctSerieNfts e)))
           (populateDistinctSerieNfts e) =
         try_catch m (await (request e q) (populateDistinctSerieNfts e))"
proof (cases "request e q")
  case (Inl a)
  then show ?thesis by simp
next
  case (Inr r0)
  show ?thesis
  proof (cases "populateDistinctSerieNfts e r0")
    case (Inl a)
    with Inr show ?thesis by simp
  next
    case r1: (Inr r1)
    from populate_again [OF idem r1] Inr r1 show ?thesis by simp
  qed
qed

lemma exSpecEnv_populate:
  "populateNFT exSpecEnv = populateNFT_spec exStore"
  by (simp add: exSpecEnv_def)

lemma exStore_enriched:
  "populateNFT_spec exStore exNFT = Inr (exNFT\<lparr>nftCategories := [Some exArt]\<rparr>)"
  "populateNFT_spec exStore exSerieNFT = Inr exSerieNFT"
  "populateNFT_spec exStore exThirdNFT = Inr exThirdNFT"
  by (simp_all add: populateNFT_spec_def findMongoNftFromId_def NftModel_findOne_def
      storeCallResult_def exStore_def exNFT_def exSerieNFT_def exThirdNFT_def)

text \<open>
  Claim C6, for the enrichment merge as the specification describes it. Enriching an
  enriched record gives the same record (and a rejected enrichment stays rejected); the
  enrichment of a batch does not depend on the order of its records: two batches with the
  same records are both rejected, or both enriched to the same records. A service whose
  enrichment is this merge returns from \<^verbatim>\<open>getNFTsFromCategories\<close>, which enriches in the
  nested call and again in the outer call, what the nested call returns.
\<close>

theorem enrichment_idempotent_order_independent:
  "await (populateNFT_spec st NFT) (populateNFT_spec st) = populateNFT_spec st NFT \<and>
   (mset xs = mset ys \<longrightarrow>
      map_sum (\<lambda>err. ()) mset (Promise_all (map (populateNFT_spec st) xs)) =
      map_sum (\<lambda>err. ()) mset (Promise_all (map (populateNFT_spec st) ys))) \<and>
   (populateNFT e = populateNFT_spec st \<longrightarrow>
      await (getNFTsNotInIds e ids page limit lst) (populateDistinctSerieNfts e) =
        getNFTsNotInIds e ids page limit lst \<and>
      await (getNFTsFromIdsDistinct e ids page limit lst) (populateDistinctSerieNfts e) =
        getNFTsFromIdsDistinct e ids page limit lst \<and>
      getNFTsFromCategories e st None page limit lst =
        try_catch ''Couldn't get NFTs by categories''
          (await (NftModel_find st categoriesExistsNinEmptyNull) (\<lambda>mongoNfts.
             getNFTsNotInIds e (map chainId mongoNfts) page limit lst)) \<and>
      getNFTsFromCategories e st (Some cs) page limit lst =
        try_catch ''Couldn't get NFTs by categories''
          (await (Promise_all (map (categoryIdByCode e) cs)) (\<lambda>cats.
           await (NftModel_find st (categoriesIn cats)) (\<lambda>mongoNfts.
             getNFTsFromIdsDistinct e (map chainId mongoNfts) page limit lst))))"
proof (intro conjI impI)
  show "await (populateNFT_spec st NFT) (populateNFT_spec st) = populateNFT_spec st NFT"
    by (cases "populateNFT_spec st NFT") (simp_all add: populateNFT_spec_again)
  show "map_sum (\<lambda>err. ()) mset (Promise_all (map (populateNFT_spec st) xs)) =
      map_sum (\<lambda>err. ()) mset (Promise_all (map (populateNFT_spec st) ys))"
    if "mset xs = mset ys" using that by (rule Promise_all_order)
next
  assume p: "populateNFT e = populateNFT_spec st"
  then have idem: "\<forall>x y. populateNFT e x = Inr y \<longrightarrow> populateNFT e y = Inr y"
    by (metis populateNFT_spec_again)
  show a: "await (getNFTsNotInIds e ids page limit lst) (populateDistinctSerieNfts e) =
        getNFTsNotInIds e ids page limit lst" for ids
    unfolding getNFTsNotInIds_def by (rule enrich_twice [OF idem])
  show b: "await (getNFTsFromIdsDistinct e ids page limit lst) (populateDistinctSerieNfts e) =
        getNFTsFromIdsDistinct e ids page limit lst" for ids
    unfolding getNFTsFromIdsDistinct_def by (rule enrich_twice [OF idem])
  show "getNFTsFromCategories e st None page limit lst =
        try_catch ''Couldn't get NFTs by categories''
          (await (NftModel_find st categoriesExistsNinEmptyNull) (\<lambda>mongoNfts.
             getNFTsNotInIds e (map chainId mongoNfts) page limit lst))"
    by (simp add: getNFTsFromCategories_def a)
  show "getNFTsFromCategories e st (Some cs) page limit lst =
        try_catch ''Couldn't get NFTs by categories''
          (await (Promise_all (map (categoryIdByCode e) cs)) (\<lambda>cats.
           await (NftModel_find st (categoriesIn cats)) (\<lambda>mongoNfts.
             getNFTsFromIdsDistinct e (map chainId mongoNfts) page limit lst)))"
    by (simp add: getNFTsFromCategories_def b)
qed

theorem enrichment_idempotent_order_independent_witness:
  "populateNFT_spec exStore exNFT = Inr (exNFT\<lparr>nftCategories := [Some exArt]\<rparr>) \<and>
   populateNFT_spec exStore (exNFT\<lparr>nftCategories := [Some exArt]\<rparr>) =
     Inr (exNFT\<lparr>nftCategories := [Some exArt]\<rparr>) \<and>
   map_sum (\<lambda>err. ()) mset (Promise_all (map (populateNFT_spec exStore) [exNFT, exSerieNFT])) =
   map_sum (\<lambda>err. ()) mset (Promise_all (map (populateNFT_spec exStore) [exSerieNFT, exNFT])) \<and>
   getNFTsFromCategories exSpecEnv exStore None None None None =
     Inr (exDistinct [exSerieNFT, exThirdNFT])"
proof -
  note t = enrichment_idempotent_order_independent [of exStore exNFT "[exNFT, exSerieNFT]"
      "[exSerieNFT, exNFT]" exSpecEnv _ None None None]
  have m: "mset [exNFT, exSerieNFT] = mset [exSerieNFT, exNFT]" by (simp add: add.commute)
  from t have 1: "populateNFT_spec exStore (exNFT\<lparr>nftCategories := [Some exArt]\<rparr>) =
     Inr (exNFT\<lparr>nftCategories := [Some exArt]\<rparr>)"
    by (simp add: exStore_enriched)
  from t m have 2: "map_sum (\<lambda>err. ()) mset (Promise_all (map (populateNFT_spec exStore) [exNFT, exSerieNFT])) =
   map_sum (\<lambda>err. ()) mset (Promise_all (map (populateNFT_spec exStore) [exSerieNFT, exNFT]))"
    by blast
  have f: "NftModel_find exStore categoriesExistsNinEmptyNull =
             Inr [\<lparr>chainId = ''42'', categories = Present [Some exArt]\<rparr>]"
    by (simp add: NftModel_find_def storeCallResult_def matchesNft_nonempty exStore_categorized)
      (simp add: exStore_def)
  have r: "request exSpecEnv (NFTsNotInIds [''42''] None None None) =
             Inr (exDistinct [exSerieNFT, exThirdNFT])"
    using exEnv_by_ids(1) by (simp add: exSpecEnv_def exEnv_def)
  have g: "getNFTsNotInIds exSpecEnv [''42''] None None None =
             Inr (exDistinct [exSerieNFT, exThirdNFT])"
    by (simp add: getNFTsNotInIds_def r populateDistinctSerieNfts_def exDistinct_def
        exSpecEnv_populate exStore_enriched)
  from t exSpecEnv_populate have "getNFTsFromCategories exSpecEnv exStore None None None None =
        try_catch ''Couldn't get NFTs by categories''
          (await (NftModel_find exStore categoriesExistsNinEmptyNull) (\<lambda>mongoNfts.
             getNFTsNotInIds exSpecEnv (map chainId mongoNfts) None None None))"
    by blast
  then have 3: "getNFTsFromCategories exSpecEnv exStore None None None None =
     Inr (exDistinct [exSerieNFT, exThirdNFT])"
    by (simp add: f g)
  from exStore_enriched(1) 1 2 3 show ?thesis by blast
qed

end
